theory Spec2Isabelle
  imports Complex_Main "HOL-Library.Multiset"
begin

section \<open>Objects, arrays and the event emitter\<close>

text \<open>
  The controllers are TypeScript classes that extend Node's \<open>EventEmitter\<close>. Three
  things of the JavaScript runtime are made explicit here.

  \<^item> Objects and arrays have identity. A \<open>PlayerController\<close> is the address of an
    object; a \<open>PlayerController[]\<close> is the address of an array (\<open>array_ref\<close>) whose
    elements live in the store. \<open>Set.has\<close>, \<open>toBe\<close> and "the same list" compare
    addresses.
  \<^item> A listener is a subscribed callback, known by its identity only. What a listener
    does when it is called lies outside the classes modelled here; \<open>emit\<close> records
    which listeners it invoked, in the order of invocation. Whether a call of a
    listener returns or throws is a parameter of its own (\<open>listener_behaviour\<close>
    below), used where exceptions are the subject.
  \<^item> A thrown \<open>Error\<close> is a value: a method that can throw returns
    \<open>js_error + result\<close>.
\<close>

type_synonym PlayerController = nat

type_synonym array_ref = nat

type_synonym listener = nat

datatype js_error = Error string

text \<open>
  Modelled from the spec: the class \<open>PlayerController\<close> is imported by the sources but
  is not among them. All that is used of it is the getter \<open>id\<close> of an occupant, a
  string; the store holds it per object (\<open>id_of\<close>).

  \<open>elems s r\<close> is the content of the array at address \<open>r\<close>; \<open>fresh s\<close> is the next
  address that an array literal or \<open>new\<close> will take.
\<close>

record store =
  elems :: "array_ref \<Rightarrow> PlayerController list"
  fresh :: array_ref
  id_of :: "PlayerController \<Rightarrow> string"

text \<open>The array literal \<open>[]\<close>: a new, empty array at an address never used before.\<close>

definition new_array :: "store \<Rightarrow> array_ref \<times> store" where
  "new_array s = (fresh s, s\<lparr>elems := (elems s)(fresh s := []), fresh := Suc (fresh s)\<rparr>)"

text \<open>
  One call of \<open>emit\<close>: the event with its payload, and the listeners that were
  subscribed to that event at the time, which \<open>EventEmitter.emit\<close> calls synchronously
  in the order of their registration.
\<close>

record 'e emission =
  event :: 'e
  invoked :: "listener list"

section \<open>ConversationAreaController\<close>

text \<open>
  \<open>ConversationAreaEvents\<close>: \<open>topicChange(newTopic: string | undefined)\<close> and
  \<open>occupantsChange(newOccupants: PlayerController[])\<close>. The payload of the second is
  the array itself, that is, its address.
\<close>

datatype ConversationAreaEvents =
  topicChange "string option"
  | occupantsChange array_ref

text \<open>
  The wire shape \<open>ConversationArea\<close> of \<open>types/CoveyTownSocket\<close> (a type declaration
  that is imported, not among the sources): \<open>{id, topic?, occupantsByID}\<close>.
\<close>

record ConversationAreaModel =
  id_m :: string
  topic_m :: "string option"
  occupantsByID :: "string list"

text \<open>
  The private fields \<open>_id\<close>, \<open>_topic\<close>, \<open>_occupants\<close>, and the listener lists that
  the inherited emitter keeps per event name.
\<close>

record ConversationAreaController =
  priv_id :: string
  priv_topic :: "string option"
  priv_occupants :: array_ref
  topicChange_listeners :: "listener list"
  occupantsChange_listeners :: "listener list"

text \<open>\<open>addListener(name, l)\<close> of the emitter appends \<open>l\<close> to the list of that event.\<close>

definition addListener_topicChange ::
  "listener \<Rightarrow> ConversationAreaController \<Rightarrow> ConversationAreaController" where
  "addListener_topicChange l c = c\<lparr>topicChange_listeners := topicChange_listeners c @ [l]\<rparr>"

definition addListener_occupantsChange ::
  "listener \<Rightarrow> ConversationAreaController \<Rightarrow> ConversationAreaController" where
  "addListener_occupantsChange l c =
     c\<lparr>occupantsChange_listeners := occupantsChange_listeners c @ [l]\<rparr>"

fun subscribers :: "ConversationAreaController \<Rightarrow> ConversationAreaEvents \<Rightarrow> listener list" where
  "subscribers c (topicChange _) = topicChange_listeners c"
| "subscribers c (occupantsChange _) = occupantsChange_listeners c"

definition emit ::
  "ConversationAreaController \<Rightarrow> ConversationAreaEvents \<Rightarrow> ConversationAreaEvents emission"
  where
  "emit c e = \<lparr>event = e, invoked = subscribers c e\<rparr>"

text \<open>
  \<open>constructor(id, topic?)\<close>: \<open>super()\<close> gives an emitter with no listener; \<open>_occupants\<close>
  is a new empty array.
\<close>

definition new_ConversationAreaController ::
  "string \<Rightarrow> string option \<Rightarrow> store \<Rightarrow> ConversationAreaController \<times> store" where
  "new_ConversationAreaController i t s =
     (let (r, s') = new_array s
      in (\<lparr>priv_id = i, priv_topic = t, priv_occupants = r,
            topicChange_listeners = [], occupantsChange_listeners = []\<rparr>, s'))"

definition get_id :: "ConversationAreaController \<Rightarrow> string" where
  "get_id c = priv_id c"

definition get_occupants :: "ConversationAreaController \<Rightarrow> array_ref" where
  "get_occupants c = priv_occupants c"

definition get_topic :: "ConversationAreaController \<Rightarrow> string option" where
  "get_topic c = priv_topic c"

text \<open>
  The loop of \<open>_isSameOccupantsList\<close>:
  \<^verbatim>\<open>for (const player of newOccupants) { if (!occupantsSet.has(player)) return false; } return true;\<close>
\<close>

fun each_player_in :: "PlayerController set \<Rightarrow> PlayerController list \<Rightarrow> bool" where
  "each_player_in occupantsSet [] = True"
| "each_player_in occupantsSet (player # rest) =
     (if player \<notin> occupantsSet then False else each_player_in occupantsSet rest)"

definition isSameOccupantsList ::
  "ConversationAreaController \<Rightarrow> array_ref \<Rightarrow> store \<Rightarrow> bool" where
  "isSameOccupantsList c newOccupants s =
     (if length (elems s (get_occupants c)) = length (elems s newOccupants)
      then (let occupantsSet = set (elems s (get_occupants c))
            in each_player_in occupantsSet (elems s newOccupants))
      else False)"

text \<open>
  The setters return the controller after the call and the emissions made during it.
  Neither writes to an array, so the store is read only.
\<close>

definition set_occupants ::
  "ConversationAreaController \<Rightarrow> array_ref \<Rightarrow> store
     \<Rightarrow> ConversationAreaController \<times> ConversationAreaEvents emission list" where
  "set_occupants c newOccupants s =
     (if \<not> isSameOccupantsList c newOccupants s
      then (let c' = c\<lparr>priv_occupants := newOccupants\<rparr>
            in (c', [emit c' (occupantsChange (priv_occupants c'))]))
      else (c, []))"

definition set_topic ::
  "ConversationAreaController \<Rightarrow> string option
     \<Rightarrow> ConversationAreaController \<times> ConversationAreaEvents emission list" where
  "set_topic c newTopic =
     (if priv_topic c \<noteq> newTopic
      then (let c' = c\<lparr>priv_topic := newTopic\<rparr>
            in (c', [emit c' (topicChange (priv_topic c'))]))
      else (c, []))"

definition isEmpty :: "ConversationAreaController \<Rightarrow> store \<Rightarrow> bool" where
  "isEmpty c s = (priv_topic c = None \<or> length (elems s (priv_occupants c)) = 0)"

definition toConversationAreaModel ::
  "ConversationAreaController \<Rightarrow> store \<Rightarrow> ConversationAreaModel" where
  "toConversationAreaModel c s =
     (let ids = map (\<lambda>occupant. id_of s occupant) (elems s (priv_occupants c))
      in \<lparr>id_m = priv_id c, topic_m = priv_topic c, occupantsByID = ids\<rparr>)"

text \<open>
  \<open>playerFinder\<close> is a callback of the caller: it may throw, it may build a new array
  or hand out one that exists already. It is a function from the IDs and the store to
  an error or the address it returns with the store it leaves.
\<close>

type_synonym playerFinder = "string list \<Rightarrow> store \<Rightarrow> js_error + array_ref \<times> store"

definition fromConversationAreaModel ::
  "ConversationAreaModel \<Rightarrow> playerFinder \<Rightarrow> store
     \<Rightarrow> js_error + ConversationAreaController \<times> store \<times> ConversationAreaEvents emission list"
  where
  "fromConversationAreaModel convAreaModel finder s =
     (let (ret, s0) = new_ConversationAreaController (id_m convAreaModel) (topic_m convAreaModel) s
      in case finder (occupantsByID convAreaModel) s0 of
           Inl e \<Rightarrow> Inl e
         | Inr (found, s1) \<Rightarrow>
             (let (ret', out) = set_occupants ret found s1 in Inr (ret', s1, out)))"

section \<open>Exceptions that pass through the controller\<close>

text \<open>
  The class has no \<open>throw\<close> and no \<open>try\<close>. An exception can only come out of the
  code that it calls and that its caller supplies: a listener, called by \<open>emit\<close>, and
  \<open>playerFinder\<close>. \<open>EventEmitter.emit\<close> calls the listeners of the event one after
  the other and catches nothing: the first listener that throws ends the emission, and
  with it the setter that emitted, with that error.

  \<open>does l e\<close> is what the listener \<open>l\<close> does when it is called with the event \<open>e\<close>:
  it returns (\<open>None\<close>) or it throws (\<open>Some err\<close>).
\<close>

type_synonym listener_behaviour = "listener \<Rightarrow> ConversationAreaEvents \<Rightarrow> js_error option"

fun call_in_order ::
  "listener_behaviour \<Rightarrow> ConversationAreaEvents \<Rightarrow> listener list \<Rightarrow> js_error option" where
  "call_in_order does e [] = None"
| "call_in_order does e (l # ls) =
     (case does l e of Some err \<Rightarrow> Some err | None \<Rightarrow> call_in_order does e ls)"

text \<open>The emissions of one call, in the order in which they were made.\<close>

fun deliver ::
  "listener_behaviour \<Rightarrow> ConversationAreaEvents emission list \<Rightarrow> js_error option" where
  "deliver does [] = None"
| "deliver does (em # rest) =
     (case call_in_order does (event em) (invoked em) of
        Some err \<Rightarrow> Some err
      | None \<Rightarrow> deliver does rest)"

text \<open>
  The operations of the class, and the error with which a call of one ends, if it
  ends with an error. The constructor and the factory are static: they do not use the
  controller.
\<close>

datatype operation =
  New string "string option"
  | Get_id
  | Get_occupants
  | Set_occupants array_ref
  | Get_topic
  | Set_topic "string option"
  | IsEmpty
  | ToConversationAreaModel
  | FromConversationAreaModel ConversationAreaModel playerFinder

fun thrown ::
  "listener_behaviour \<Rightarrow> operation \<Rightarrow> ConversationAreaController \<Rightarrow> store \<Rightarrow> js_error option"
  where
  "thrown does (New i t) c s = None"
| "thrown does Get_id c s = None"
| "thrown does Get_occupants c s = None"
| "thrown does (Set_occupants newOccupants) c s =
     deliver does (snd (set_occupants c newOccupants s))"
| "thrown does Get_topic c s = None"
| "thrown does (Set_topic newTopic) c s = deliver does (snd (set_topic c newTopic))"
| "thrown does IsEmpty c s = None"
| "thrown does ToConversationAreaModel c s = None"
| "thrown does (FromConversationAreaModel m finder) c s =
     (case fromConversationAreaModel m finder s of
        Inl err \<Rightarrow> Some err
      | Inr (ret, s1, out) \<Rightarrow> deliver does out)"

text \<open>
  The proviso of the factory: \<open>playerFinder\<close>, called as the factory calls it, returns.
  It says nothing about the other operations.
\<close>

definition finder_returns :: "operation \<Rightarrow> store \<Rightarrow> bool" where
  "finder_returns op s =
     (case op of
        FromConversationAreaModel m finder \<Rightarrow>
          (case finder (occupantsByID m)
                  (snd (new_ConversationAreaController (id_m m) (topic_m m) s)) of
             Inl err \<Rightarrow> False
           | Inr r \<Rightarrow> True)
      | _ \<Rightarrow> True)"

section \<open>ViewingAreaController\<close>

text \<open>
  \<open>ViewingAreaEvents\<close> and the wire shape \<open>ViewingArea\<close>
  (\<open>{id, isPlaying, elapsedTimeSec, video?}\<close>). A JavaScript \<open>number\<close> that is
  finite is the real number it denotes; the controller does no arithmetic on it.
\<close>

datatype ViewingAreaEvents =
  playbackChange bool
  | progressChange real
  | videoChange "string option"

record ViewingAreaModel =
  id_v :: string
  isPlaying :: bool
  elapsedTimeSec :: real
  video :: "string option"

text \<open>
  The class declares no field of its own: an instance holds what the emitter holds,
  the listeners per event name.
\<close>

record ViewingAreaController =
  playbackChange_listeners :: "listener list"
  progressChange_listeners :: "listener list"
  videoChange_listeners :: "listener list"

text \<open>The constructor calls \<open>super()\<close> and does nothing with its argument.\<close>

definition new_ViewingAreaController :: "ViewingAreaModel \<Rightarrow> ViewingAreaController" where
  "new_ViewingAreaController viewingAreaModel =
     \<lparr>playbackChange_listeners = [], progressChange_listeners = [],
      videoChange_listeners = []\<rparr>"

text \<open>
  The body of every accessor and of \<open>viewingAreaModel()\<close> is
  \<^verbatim>\<open>throw new Error('Unimplemented: Task 2 ViewingAreaController')\<close>.
  The result types are the declared ones (\<open>get video(): string\<close>, while the setter
  takes \<open>string | undefined\<close>).
\<close>

definition Unimplemented :: js_error where
  "Unimplemented = Error ''Unimplemented: Task 2 ViewingAreaController''"

definition get_id_ViewingArea :: "ViewingAreaController \<Rightarrow> js_error + string" where
  "get_id_ViewingArea c = Inl Unimplemented"

definition get_video :: "ViewingAreaController \<Rightarrow> js_error + string" where
  "get_video c = Inl Unimplemented"

definition set_video ::
  "ViewingAreaController \<Rightarrow> string option
     \<Rightarrow> js_error + ViewingAreaController \<times> ViewingAreaEvents emission list" where
  "set_video c v = Inl Unimplemented"

definition get_elapsedTimeSec :: "ViewingAreaController \<Rightarrow> js_error + real" where
  "get_elapsedTimeSec c = Inl Unimplemented"

definition set_elapsedTimeSec ::
  "ViewingAreaController \<Rightarrow> real
     \<Rightarrow> js_error + ViewingAreaController \<times> ViewingAreaEvents emission list" where
  "set_elapsedTimeSec c t = Inl Unimplemented"

definition get_isPlaying :: "ViewingAreaController \<Rightarrow> js_error + bool" where
  "get_isPlaying c = Inl Unimplemented"

definition set_isPlaying ::
  "ViewingAreaController \<Rightarrow> bool
     \<Rightarrow> js_error + ViewingAreaController \<times> ViewingAreaEvents emission list" where
  "set_isPlaying c b = Inl Unimplemented"

definition viewingAreaModel :: "ViewingAreaController \<Rightarrow> js_error + ViewingAreaModel" where
  "viewingAreaModel c = Inl Unimplemented"

text \<open>
  \<open>updateFrom\<close>: three assignments in sequence. An assignment that throws ends the
  method with that error; the later assignments do not run.
\<close>

definition updateFrom ::
  "ViewingAreaController \<Rightarrow> ViewingAreaModel
     \<Rightarrow> js_error + ViewingAreaController \<times> ViewingAreaEvents emission list" where
  "updateFrom c updatedModel =
     (case set_isPlaying c (isPlaying updatedModel) of
        Inl e \<Rightarrow> Inl e
      | Inr (c1, out1) \<Rightarrow>
          (case set_elapsedTimeSec c1 (elapsedTimeSec updatedModel) of
             Inl e \<Rightarrow> Inl e
           | Inr (c2, out2) \<Rightarrow>
               (case set_video c2 (video updatedModel) of
                  Inl e \<Rightarrow> Inl e
                | Inr (c3, out3) \<Rightarrow> Inr (c3, out1 @ out2 @ out3))))"

section \<open>JavaScript numbers: IEEE 754 binary64\<close>

text \<open>
  A \<open>number\<close> is a double. The finite doubles are the reals \<open>\<plusminus> m * 2 ^ q\<close> with
  \<open>m < 2 ^ 53\<close> and \<open>- 1074 \<le> q \<le> 971\<close>; a time in seconds is one of them (\<open>NaN\<close> and
  the infinities are not modelled). \<open>a + b\<close> and \<open>a - b\<close> on doubles are the exact sum
  and difference rounded to the nearest double, a tie going to the double whose
  last bit is even; \<open>>\<close> and \<open><\<close> compare the reals.

  The rounding works on the magnitude scaled by \<open>2 ^ 1074\<close>, so that every double is an
  integer: of the integer part, all bits beyond the leading 53 are rounded away
  (\<open>ulp_shift\<close> counts them; it is 0 in the subnormal range and below \<open>2 ^ 53\<close> scaled).
  Overflow to infinity is left out: the largest double plus 3 rounds to itself, so
  the sums of the handler, \<open>c + 3\<close> and \<open>c - 3\<close> for a double \<open>c\<close>, do not overflow.
\<close>

fun bit_length :: "nat \<Rightarrow> nat" where
  "bit_length n = (if n = 0 then 0 else Suc (bit_length (n div 2)))"

declare bit_length.simps [simp del]

definition round_half_even :: "real \<Rightarrow> int" where
  "round_half_even q =
     (let n = \<lfloor>q\<rfloor>; r = q - of_int n
      in if r < 1 / 2 then n else if r > 1 / 2 then n + 1 else if even n then n else n + 1)"

definition denormal_bits :: nat where
  "denormal_bits = 1074"

definition ulp_shift :: "real \<Rightarrow> nat" where
  "ulp_shift x = bit_length (nat \<lfloor>\<bar>x\<bar> * 2 ^ denormal_bits\<rfloor>) - 53"

definition round_to_double :: "real \<Rightarrow> real" where
  "round_to_double x =
     sgn x * (of_int (round_half_even (\<bar>x\<bar> * 2 ^ denormal_bits / 2 ^ ulp_shift x))
                * 2 ^ ulp_shift x / 2 ^ denormal_bits)"

text \<open>
  The largest double, and the finite doubles: the reals up to it that rounding leaves
  as they are.
\<close>

definition double_max :: real where
  "double_max = (2 ^ 53 - 1) * 2 ^ 971"

definition is_double :: "real \<Rightarrow> bool" where
  "is_double x = (round_to_double x = x \<and> \<bar>x\<bar> \<le> double_max)"

definition double_add :: "real \<Rightarrow> real \<Rightarrow> real" where
  "double_add a b = round_to_double (a + b)"

definition double_sub :: "real \<Rightarrow> real \<Rightarrow> real" where
  "double_sub a b = round_to_double (a - b)"

section \<open>ViewingAreaVideo: the progressChange handler\<close>

text \<open>
  The embedded player is the library component \<open>ReactPlayer\<close>. The handler uses two of
  its methods: \<open>getCurrentTime()\<close>, the position the player reports, and
  \<open>seekTo(amount, type)\<close>. The player is modelled by what it reports and by the list of
  the seeks it was asked for. \<open>reactPlayerRef.current\<close> is the player or \<open>null\<close>.
\<close>

definition ALLOWED_DRIFT :: real where
  "ALLOWED_DRIFT = 3"

record ReactPlayer =
  currentTime :: real
  seeks :: "(real \<times> string) list"

definition getCurrentTime :: "ReactPlayer \<Rightarrow> real" where
  "getCurrentTime p = currentTime p"

definition seekTo :: "real \<Rightarrow> string \<Rightarrow> ReactPlayer \<Rightarrow> ReactPlayer" where
  "seekTo amount type p = p\<lparr>seeks := seeks p @ [(amount, type)]\<rparr>"

text \<open>
  \<^verbatim>\<open>if (newTime > getCurrentTime() + ALLOWED_DRIFT) seekTo(newTime, 'seconds');\<close>
  \<^verbatim>\<open>else if (newTime < getCurrentTime() - ALLOWED_DRIFT) seekTo(newTime, 'seconds');\<close>
\<close>

definition updateTimecode :: "real \<Rightarrow> ReactPlayer option \<Rightarrow> ReactPlayer option" where
  "updateTimecode newTime current =
     (case current of
        None \<Rightarrow> None
      | Some p \<Rightarrow>
          if newTime > double_add (getCurrentTime p) ALLOWED_DRIFT
          then Some (seekTo newTime ''seconds'' p)
          else if newTime < double_sub (getCurrentTime p) ALLOWED_DRIFT
          then Some (seekTo newTime ''seconds'' p)
          else Some p)"

section \<open>Example states\<close>

text \<open>
  Three players (objects 1, 2 and 3) and five arrays:
  \<open>[p1, p2]\<close> at 0, \<open>[p1, p1]\<close> at 1, \<open>[]\<close> at 2, \<open>[p1, p2, p3]\<close> at 3 and its
  reordering \<open>[p3, p1, p2]\<close> at 4.
\<close>

definition example_store :: store where
  "example_store =
     \<lparr>elems = (\<lambda>_. [])(0 := [1, 2], 1 := [1, 1], 2 := [], 3 := [1, 2, 3], 4 := [3, 1, 2]),
      fresh = 5,
      id_of = (\<lambda>p. if p = 1 then ''p1'' else if p = 2 then ''p2'' else ''p3'')\<rparr>"

text \<open>
  A conversation area with a topic, the occupants array \<open>r\<close>, one listener for
  \<open>topicChange\<close> and two for \<open>occupantsChange\<close>.
\<close>

definition example_area :: "array_ref \<Rightarrow> ConversationAreaController" where
  "example_area r =
     \<lparr>priv_id = ''area'', priv_topic = Some ''fruits'', priv_occupants = r,
      topicChange_listeners = [7], occupantsChange_listeners = [8, 9]\<rparr>"

text \<open>A \<open>playerFinder\<close> that answers with the array at \<open>r\<close>, whatever the IDs.\<close>

definition finder_returning :: "array_ref \<Rightarrow> playerFinder" where
  "finder_returning r ids s = Inr (r, s)"

text \<open>Listeners of which only \<open>bad\<close> throws when it is called.\<close>

definition throwing_listener :: "listener \<Rightarrow> listener_behaviour" where
  "throwing_listener bad l e = (if l = bad then Some (Error ''listener failed'') else None)"

text \<open>Listeners that all throw, each an error of its own.\<close>

definition each_throws :: listener_behaviour where
  "each_throws l e = Some (Error (if l = 8 then ''listener 8 failed'' else ''another failed''))"

text \<open>The viewing area of the test suite and of the spec's scenario.\<close>

definition example_viewing_area :: ViewingAreaController where
  "example_viewing_area =
     new_ViewingAreaController
       \<lparr>id_v = ''a1'', isPlaying = True, elapsedTimeSec = 12, video = Some ''v1''\<rparr>"

section \<open>Auxiliary facts\<close>

lemma each_player_in_iff: "each_player_in S ps = (set ps \<subseteq> S)"
  by (induction ps) auto

text \<open>
  What \<open>_isSameOccupantsList\<close> decides: equal lengths, and every element of the new
  array is an element of the current one. The converse inclusion is not looked at.
\<close>

lemma isSameOccupantsList_iff:
  "isSameOccupantsList c r s =
     (length (elems s (priv_occupants c)) = length (elems s r) \<and>
      set (elems s r) \<subseteq> set (elems s (priv_occupants c)))"
  by (simp add: isSameOccupantsList_def get_occupants_def each_player_in_iff)

lemma set_occupants_eq:
  "set_occupants c r s =
     (if isSameOccupantsList c r s then (c, [])
      else (c\<lparr>priv_occupants := r\<rparr>,
            [\<lparr>event = occupantsChange r, invoked = occupantsChange_listeners c\<rparr>]))"
  by (simp add: set_occupants_def emit_def Let_def)

lemma set_topic_eq:
  "set_topic c v =
     (if priv_topic c = v then (c, [])
      else (c\<lparr>priv_topic := v\<rparr>,
            [\<lparr>event = topicChange v, invoked = topicChange_listeners c\<rparr>]))"
  by (simp add: set_topic_def emit_def Let_def)

lemma new_ConversationAreaController_eq:
  "new_ConversationAreaController i t s =
     (\<lparr>priv_id = i, priv_topic = t, priv_occupants = fresh s,
       topicChange_listeners = [], occupantsChange_listeners = []\<rparr>,
      s\<lparr>elems := (elems s)(fresh s := []), fresh := Suc (fresh s)\<rparr>)"
  by (simp add: new_ConversationAreaController_def new_array_def)

text \<open>
  When \<open>playerFinder\<close> returns, the factory returns what the assignment to \<open>occupants\<close>
  leaves; when it throws, the factory throws the same error.
\<close>

lemma fromConversationAreaModel_Inr:
  assumes "finder (occupantsByID m) (snd (new_ConversationAreaController (id_m m) (topic_m m) s))
             = Inr (found, s1)"
  shows "fromConversationAreaModel m finder s =
           Inr (fst (set_occupants (fst (new_ConversationAreaController (id_m m) (topic_m m) s))
                       found s1),
                s1,
                snd (set_occupants (fst (new_ConversationAreaController (id_m m) (topic_m m) s))
                       found s1))"
  using assms
  by (simp add: fromConversationAreaModel_def new_ConversationAreaController_eq split: prod.splits)

lemma fromConversationAreaModel_Inl:
  "(fromConversationAreaModel m finder s = Inl e) =
   (finder (occupantsByID m) (snd (new_ConversationAreaController (id_m m) (topic_m m) s)) = Inl e)"
  by (simp add: fromConversationAreaModel_def new_ConversationAreaController_eq
      split: prod.splits sum.splits)

text \<open>
  When the setter stores: the lengths differ, or some element of the new array is not
  an occupant yet.
\<close>

lemma set_occupants_stores_iff:
  "(get_occupants (fst (set_occupants c r s)) = r \<and>
    snd (set_occupants c r s) =
      [\<lparr>event = occupantsChange r, invoked = occupantsChange_listeners c\<rparr>]) =
   (length (elems s (get_occupants c)) \<noteq> length (elems s r) \<or>
    \<not> set (elems s r) \<subseteq> set (elems s (get_occupants c)))"
  by (auto simp add: set_occupants_eq isSameOccupantsList_iff get_occupants_def)

text \<open>Every accessor of \<open>ViewingAreaController\<close> throws, and so does \<open>updateFrom\<close>.\<close>

lemma updateFrom_Unimplemented: "updateFrom c m = Inl Unimplemented"
  by (simp add: updateFrom_def set_isPlaying_def)

lemma ViewingAreaController_accessors_Unimplemented:
  "get_id_ViewingArea c = Inl Unimplemented"
  "get_video c = Inl Unimplemented"
  "set_video c v = Inl Unimplemented"
  "get_elapsedTimeSec c = Inl Unimplemented"
  "set_elapsedTimeSec c t = Inl Unimplemented"
  "get_isPlaying c = Inl Unimplemented"
  "set_isPlaying c b = Inl Unimplemented"
  "viewingAreaModel c = Inl Unimplemented"
  by (simp_all add: get_id_ViewingArea_def get_video_def set_video_def get_elapsedTimeSec_def
      set_elapsedTimeSec_def get_isPlaying_def set_isPlaying_def viewingAreaModel_def)

text \<open>The assignment inside the factory, on the controller the constructor has just made.\<close>

lemma set_occupants_on_new_nonempty:
  assumes "elems s1 r0 = []" and "elems s1 found \<noteq> []"
  shows "set_occupants \<lparr>priv_id = i, priv_topic = t, priv_occupants = r0,
           topicChange_listeners = [], occupantsChange_listeners = []\<rparr> found s1 =
         (\<lparr>priv_id = i, priv_topic = t, priv_occupants = found,
           topicChange_listeners = [], occupantsChange_listeners = []\<rparr>,
          [\<lparr>event = occupantsChange found, invoked = []\<rparr>])"
  using assms by (simp add: set_occupants_eq isSameOccupantsList_iff)

lemma set_occupants_on_new_empty:
  assumes "elems s1 r0 = []" and "elems s1 found = []"
  shows "set_occupants \<lparr>priv_id = i, priv_topic = t, priv_occupants = r0,
           topicChange_listeners = [], occupantsChange_listeners = []\<rparr> found s1 =
         (\<lparr>priv_id = i, priv_topic = t, priv_occupants = r0,
           topicChange_listeners = [], occupantsChange_listeners = []\<rparr>, [])"
  using assms by (simp add: set_occupants_eq isSameOccupantsList_iff)

section \<open>Auxiliary facts: rounding to a double\<close>

text \<open>The number of bits of \<open>n\<close>: \<open>2 ^ (bit_length n - 1) \<le> n < 2 ^ bit_length n\<close>.\<close>

lemma bit_length_bounds: "0 < n \<Longrightarrow> 2 ^ (bit_length n - 1) \<le> n \<and> n < 2 ^ bit_length n"
proof (induction n rule: bit_length.induct)
  case (1 n)
  show ?case
  proof (cases "n div 2 = 0")
    case True
    with "1.prems" have "n = 1" by presburger
    then show ?thesis by (simp add: bit_length.simps)
  next
    case False
    then have pos: "0 < n div 2" by simp
    from "1.IH" [OF _ pos] "1.prems"
    have ih: "2 ^ (bit_length (n div 2) - 1) \<le> n div 2" "n div 2 < 2 ^ bit_length (n div 2)"
      by auto
    have bl: "bit_length n = Suc (bit_length (n div 2))"
      using "1.prems" by (subst bit_length.simps) simp
    have bpos: "0 < bit_length (n div 2)"
      using pos by (subst bit_length.simps) simp
    then obtain j where j: "bit_length (n div 2) = Suc j" by (cases "bit_length (n div 2)") auto
    from ih j have "2 * 2 ^ j \<le> n" "n < 2 * 2 ^ Suc j" by auto
    with bl j show ?thesis by simp
  qed
qed

lemma bit_length_eqI: "2 ^ k \<le> n \<Longrightarrow> n < 2 ^ Suc k \<Longrightarrow> bit_length n = Suc k"
proof -
  assume lo: "2 ^ k \<le> n" and hi: "n < 2 ^ Suc k"
  then have pos: "0 < n" by (metis less_le_trans zero_less_numeral zero_less_power)
  from bit_length_bounds [OF pos]
  have b: "2 ^ (bit_length n - 1) \<le> n" "n < 2 ^ bit_length n" by auto
  have "k < bit_length n"
    using lo b(2) by (metis le_less_trans power_less_imp_less_exp one_less_numeral_iff semiring_norm(76))
  moreover have "bit_length n - 1 < Suc k"
    using hi b(1) by (metis le_less_trans power_less_imp_less_exp one_less_numeral_iff semiring_norm(76))
  ultimately show ?thesis by linarith
qed

lemma round_half_even_floor: "\<lfloor>q\<rfloor> \<le> round_half_even q"
  by (simp add: round_half_even_def Let_def)

lemma round_half_even_ge: "of_int m \<le> q \<Longrightarrow> m \<le> round_half_even q"
proof -
  assume "of_int m \<le> q"
  then have "m \<le> \<lfloor>q\<rfloor>" by (simp add: le_floor_iff)
  with round_half_even_floor [of q] show ?thesis by linarith
qed

lemma round_half_even_le: "q \<le> of_int m \<Longrightarrow> round_half_even q \<le> m"
proof -
  assume a: "q \<le> of_int m"
  have fl: "\<lfloor>q\<rfloor> \<le> m" using a by (simp add: floor_le_iff)
  show ?thesis
  proof (cases "q = of_int \<lfloor>q\<rfloor>")
    case True
    then have "q - of_int \<lfloor>q\<rfloor> = 0" by simp
    then show ?thesis using fl by (simp add: round_half_even_def Let_def)
  next
    case False
    with of_int_floor_le [of q] have "of_int \<lfloor>q\<rfloor> < q" by linarith
    with a have "of_int \<lfloor>q\<rfloor> < (of_int m :: real)" by linarith
    then have "\<lfloor>q\<rfloor> < m" by (simp only: of_int_less_iff)
    then show ?thesis by (simp add: round_half_even_def Let_def)
  qed
qed

lemma ulp_shift_minus: "ulp_shift (- x) = ulp_shift x"
  by (simp add: ulp_shift_def)

lemma round_to_double_minus: "round_to_double (- x) = - round_to_double x"
  by (simp add: round_to_double_def ulp_shift_minus)

lemma ulp_shift_pos:
  assumes "2 ^ j \<le> x * 2 ^ denormal_bits" and "x * 2 ^ denormal_bits < 2 ^ Suc j"
  shows "0 < x \<and> ulp_shift x = Suc j - 53"
proof -
  let ?X = "x * 2 ^ denormal_bits"
  have Xpos: "0 < ?X"
    using assms(1) by (rule less_le_trans [rotated]) simp
  then have xpos: "0 < x" by (simp add: zero_less_mult_iff)
  have nonneg: "0 \<le> \<lfloor>?X\<rfloor>" using Xpos by simp
  have "(2::int) ^ j \<le> \<lfloor>?X\<rfloor>" using assms(1) by (simp add: le_floor_iff)
  then have "int (2 ^ j) \<le> \<lfloor>?X\<rfloor>" by simp
  then have lo: "2 ^ j \<le> nat \<lfloor>?X\<rfloor>" by (simp only: le_nat_iff [OF nonneg])
  have "\<lfloor>?X\<rfloor> < (2::int) ^ Suc j" using assms(2) by (simp add: floor_less_iff)
  then have "\<lfloor>?X\<rfloor> < int (2 ^ Suc j)" by simp
  then have hi: "nat \<lfloor>?X\<rfloor> < 2 ^ Suc j" by (simp only: nat_less_iff [OF nonneg])
  have "bit_length (nat \<lfloor>?X\<rfloor>) = Suc j"
    using lo hi by (rule bit_length_eqI)
  then show ?thesis
    using xpos by (simp add: ulp_shift_def)
qed

lemma round_to_double_pos:
  assumes "2 ^ j \<le> x * 2 ^ denormal_bits" and "x * 2 ^ denormal_bits < 2 ^ Suc j"
  shows "round_to_double x =
           of_int (round_half_even (x * 2 ^ denormal_bits / 2 ^ (Suc j - 53))) * 2 ^ (Suc j - 53)
             / 2 ^ denormal_bits"
  using ulp_shift_pos [OF assms] by (simp add: round_to_double_def)

text \<open>
  Rounding does not step over a double: a double on one side of \<open>x\<close> is on the same
  side of the rounded \<open>x\<close>, or equal to it.
\<close>

lemma bit_length_0: "bit_length 0 = 0"
  by (simp add: bit_length.simps)

lemma bit_length_mono: "m \<le> n \<Longrightarrow> bit_length m \<le> bit_length n"
proof (cases "m = 0")
  case True
  then show ?thesis by (simp add: bit_length_0)
next
  case False
  assume le: "m \<le> n"
  from False have mpos: "0 < m" by simp
  with le have npos: "0 < n" by simp
  from bit_length_bounds [OF mpos] have "2 ^ (bit_length m - 1) \<le> m" by simp
  moreover from bit_length_bounds [OF npos] have "n < 2 ^ bit_length n" by simp
  ultimately have "(2::nat) ^ (bit_length m - 1) < 2 ^ bit_length n" using le by linarith
  then have "bit_length m - 1 < bit_length n" by simp
  then show ?thesis by linarith
qed

text \<open>The scaled magnitude against the powers of two around it.\<close>

lemma scaled_upper:
  assumes "0 \<le> X"
  shows "X < 2 ^ (53 + (bit_length (nat \<lfloor>X\<rfloor>) - 53))"
proof -
  let ?n = "nat \<lfloor>X\<rfloor>"
  have "?n < 2 ^ bit_length ?n"
  proof (cases "?n = 0")
    case True then show ?thesis by simp
  next
    case False then show ?thesis using bit_length_bounds [of ?n] by simp
  qed
  also have "(2::nat) ^ bit_length ?n \<le> 2 ^ (53 + (bit_length ?n - 53))"
    by (rule power_increasing) simp_all
  finally have "?n < 2 ^ (53 + (bit_length ?n - 53))" .
  then have "int ?n < 2 ^ (53 + (bit_length ?n - 53))"
    by (metis of_nat_less_iff of_nat_numeral of_nat_power)
  then have "\<lfloor>X\<rfloor> < 2 ^ (53 + (bit_length ?n - 53))" using assms by simp
  then show ?thesis by (simp add: floor_less_iff)
qed

lemma scaled_lower:
  assumes "0 \<le> X" and "0 < bit_length (nat \<lfloor>X\<rfloor>) - 53"
  shows "2 ^ (52 + (bit_length (nat \<lfloor>X\<rfloor>) - 53)) \<le> X"
proof -
  let ?n = "nat \<lfloor>X\<rfloor>"
  from assms(2) have big: "53 < bit_length ?n" by simp
  then have npos: "0 < ?n" by (cases "?n = 0") (simp_all add: bit_length_0)
  have e: "52 + (bit_length ?n - 53) = bit_length ?n - 1" using big by simp
  from bit_length_bounds [OF npos] have "2 ^ (bit_length ?n - 1) \<le> ?n" by simp
  then have "int (2 ^ (bit_length ?n - 1)) \<le> int ?n" by (simp only: of_nat_le_iff)
  then have "(2::int) ^ (bit_length ?n - 1) \<le> \<lfloor>X\<rfloor>" using npos by simp
  then have "2 ^ (bit_length ?n - 1) \<le> X" by (simp add: le_floor_iff)
  then show ?thesis by (simp only: e)
qed

lemma ulp_shift_mono: "\<bar>x\<bar> \<le> \<bar>y\<bar> \<Longrightarrow> ulp_shift x \<le> ulp_shift y"
proof -
  assume "\<bar>x\<bar> \<le> \<bar>y\<bar>"
  then have "\<bar>x\<bar> * 2 ^ denormal_bits \<le> \<bar>y\<bar> * 2 ^ denormal_bits" by simp
  then have "nat \<lfloor>\<bar>x\<bar> * 2 ^ denormal_bits\<rfloor> \<le> nat \<lfloor>\<bar>y\<bar> * 2 ^ denormal_bits\<rfloor>"
    by (intro nat_mono floor_mono)
  then show ?thesis
    unfolding ulp_shift_def by (intro diff_le_mono bit_length_mono)
qed

lemma scaled_quotient: "(a::real) = n * p \<Longrightarrow> 0 < p \<Longrightarrow> a / p = n"
  by simp

text \<open>A positive number and its rounding, both scaled.\<close>

lemma round_to_double_scaled:
  assumes "0 < x"
  shows "round_to_double x * 2 ^ denormal_bits =
           of_int (round_half_even (x * 2 ^ denormal_bits / 2 ^ ulp_shift x)) * 2 ^ ulp_shift x"
  using assms by (simp add: round_to_double_def)

lemma round_to_double_nonneg: "0 \<le> x \<Longrightarrow> 0 \<le> round_to_double x"
proof -
  assume x: "0 \<le> x"
  have "(0::real) \<le> \<bar>x\<bar> * 2 ^ denormal_bits / 2 ^ ulp_shift x" by simp
  then have "0 \<le> round_half_even (\<bar>x\<bar> * 2 ^ denormal_bits / 2 ^ ulp_shift x)"
    using round_half_even_ge [of 0] by simp
  then show ?thesis
    using x by (simp add: round_to_double_def sgn_real_def)
qed

lemma double_below_positive:
  assumes t: "is_double t" and tpos: "0 < t" and le: "t \<le> x"
  shows "t \<le> round_to_double x"
proof -
  let ?S = "(2::real) ^ denormal_bits"
  let ?T = "t * ?S" and ?X = "x * ?S"
  let ?kt = "ulp_shift t" and ?kx = "ulp_shift x"
  let ?nt = "round_half_even (?T / 2 ^ ?kt)" and ?nx = "round_half_even (?X / 2 ^ ?kx)"
  have xpos: "0 < x" using tpos le by linarith
  have T: "?T = of_int ?nt * 2 ^ ?kt"
    using round_to_double_scaled [OF tpos] t by (simp add: is_double_def)
  have R: "round_to_double x * ?S = of_int ?nx * 2 ^ ?kx"
    by (rule round_to_double_scaled [OF xpos])
  have TX: "?T \<le> ?X" using le by simp
  have k: "?kt \<le> ?kx" using tpos xpos le by (intro ulp_shift_mono) simp
  have "?T \<le> of_int ?nx * 2 ^ ?kx"
  proof (cases "?kt = ?kx")
    case True
    have q: "?T / 2 ^ ?kt = of_int ?nt" by (rule scaled_quotient [OF T]) simp
    have "?T / 2 ^ ?kt \<le> ?X / 2 ^ ?kx" using TX True by (simp add: divide_right_mono)
    with q have "of_int ?nt \<le> ?X / 2 ^ ?kx" by linarith
    then have "?nt \<le> ?nx" by (rule round_half_even_ge)
    then have "(of_int ?nt :: real) * 2 ^ ?kt \<le> of_int ?nx * 2 ^ ?kx"
      using True by simp
    with T show ?thesis by simp
  next
    case False
    with k have lt: "?kt < ?kx" by simp
    have Xn: "0 \<le> \<bar>x\<bar> * ?S" by simp
    have "0 < bit_length (nat \<lfloor>\<bar>x\<bar> * ?S\<rfloor>) - 53"
      using lt by (simp add: ulp_shift_def)
    from scaled_lower [OF Xn this] have "2 ^ (52 + ?kx) \<le> ?X"
      using xpos by (simp add: ulp_shift_def)
    then have "(2::real) ^ 52 \<le> ?X / 2 ^ ?kx"
      by (simp add: power_add pos_le_divide_eq)
    then have "of_int (2 ^ 52) \<le> ?X / 2 ^ ?kx" by simp
    then have "2 ^ 52 \<le> ?nx" by (rule round_half_even_ge)
    then have "(2::real) ^ 52 \<le> of_int ?nx"
      by (metis of_int_le_iff of_int_numeral of_int_power)
    then have big: "(2::real) ^ (52 + ?kx) \<le> of_int ?nx * 2 ^ ?kx"
      by (simp add: power_add)
    have Tn: "0 \<le> \<bar>t\<bar> * ?S" by simp
    from scaled_upper [OF Tn] have "?T < 2 ^ (53 + ?kt)"
      using tpos by (simp add: ulp_shift_def)
    also have "(2::real) ^ (53 + ?kt) \<le> 2 ^ (52 + ?kx)"
      using lt by (intro power_increasing) simp_all
    finally show ?thesis using big by linarith
  qed
  with R have "?T \<le> round_to_double x * ?S" by simp
  then show ?thesis by simp
qed

lemma double_above_positive:
  assumes t: "is_double t" and xpos: "0 < x" and le: "x \<le> t"
  shows "round_to_double x \<le> t"
proof -
  let ?S = "(2::real) ^ denormal_bits"
  let ?T = "t * ?S" and ?X = "x * ?S"
  let ?kt = "ulp_shift t" and ?kx = "ulp_shift x"
  let ?nt = "round_half_even (?T / 2 ^ ?kt)" and ?nx = "round_half_even (?X / 2 ^ ?kx)"
  have tpos: "0 < t" using xpos le by linarith
  have T: "?T = of_int ?nt * 2 ^ ?kt"
    using round_to_double_scaled [OF tpos] t by (simp add: is_double_def)
  have R: "round_to_double x * ?S = of_int ?nx * 2 ^ ?kx"
    by (rule round_to_double_scaled [OF xpos])
  have XT: "?X \<le> ?T" using le by simp
  have k: "?kx \<le> ?kt" using tpos xpos le by (intro ulp_shift_mono) simp
  have "of_int ?nx * 2 ^ ?kx \<le> ?T"
  proof (cases "?kt = ?kx")
    case True
    have q: "?T / 2 ^ ?kt = of_int ?nt" by (rule scaled_quotient [OF T]) simp
    have "?X / 2 ^ ?kx \<le> ?T / 2 ^ ?kt" using XT True by (simp add: divide_right_mono)
    with q have "?X / 2 ^ ?kx \<le> of_int ?nt" by linarith
    then have "?nx \<le> ?nt" by (rule round_half_even_le)
    then have "(of_int ?nx :: real) * 2 ^ ?kx \<le> of_int ?nt * 2 ^ ?kt"
      using True by simp
    with T show ?thesis by simp
  next
    case False
    with k have lt: "?kx < ?kt" by simp
    have Tn: "0 \<le> \<bar>t\<bar> * ?S" by simp
    have "0 < bit_length (nat \<lfloor>\<bar>t\<bar> * ?S\<rfloor>) - 53"
      using lt by (simp add: ulp_shift_def)
    from scaled_lower [OF Tn this] have Tbig: "2 ^ (52 + ?kt) \<le> ?T"
      using tpos by (simp add: ulp_shift_def)
    have Xn: "0 \<le> \<bar>x\<bar> * ?S" by simp
    from scaled_upper [OF Xn] have "?X < 2 ^ (53 + ?kx)"
      using xpos by (simp add: ulp_shift_def)
    then have "?X / 2 ^ ?kx \<le> 2 ^ 53"
      by (simp add: power_add pos_divide_le_eq)
    then have "?X / 2 ^ ?kx \<le> of_int (2 ^ 53)" by simp
    then have "?nx \<le> 2 ^ 53" by (rule round_half_even_le)
    then have "of_int ?nx \<le> (2::real) ^ 53"
      by (metis of_int_le_iff of_int_numeral of_int_power)
    then have "of_int ?nx * 2 ^ ?kx \<le> (2::real) ^ (53 + ?kx)"
      by (simp add: power_add)
    also have "(2::real) ^ (53 + ?kx) \<le> 2 ^ (52 + ?kt)"
      using lt by (intro power_increasing) simp_all
    finally show ?thesis using Tbig by linarith
  qed
  with R have "round_to_double x * ?S \<le> ?T" by simp
  then show ?thesis by simp
qed

lemma is_doubleI: "round_to_double x = x \<Longrightarrow> \<bar>x\<bar> \<le> double_max \<Longrightarrow> is_double x"
  by (simp add: is_double_def)

lemma is_double_minus: "is_double t \<Longrightarrow> is_double (- t)"
  by (simp add: is_double_def round_to_double_minus)

lemma double_below: 
  assumes t: "is_double t" and le: "t \<le> x"
  shows "t \<le> round_to_double x"
proof -
  consider "0 < t" | "t \<le> 0" "0 \<le> x" | "x < 0" by linarith
  then show ?thesis
  proof cases
    case 1
    show ?thesis by (rule double_below_positive [OF t 1 le])
  next
    case 2
    then show ?thesis using round_to_double_nonneg [of x] by linarith
  next
    case 3
    then have "0 < - x" "- x \<le> - t" using le by simp_all
    from double_above_positive [OF is_double_minus [OF t] this]
    show ?thesis by (simp add: round_to_double_minus)
  qed
qed

lemma double_above:
  assumes t: "is_double t" and le: "x \<le> t"
  shows "round_to_double x \<le> t"
proof -
  from le have "- t \<le> - x" by simp
  from double_below [OF is_double_minus [OF t] this]
  show ?thesis by (simp add: round_to_double_minus)
qed

text \<open>The doubles and the roundings that the examples use.\<close>

lemma round_10_minus_3: "round_to_double (10 - 3) = 7"
  by (subst round_to_double_pos [where j = 1076])
    (simp_all add: round_half_even_def Let_def denormal_bits_def)

lemma round_10: "round_to_double 10 = 10"
  by (subst round_to_double_pos [where j = 1077])
    (simp_all add: round_half_even_def Let_def denormal_bits_def)

lemma round_10_plus_3: "round_to_double (10 + 3) = 13"
  by (subst round_to_double_pos [where j = 1077])
    (simp_all add: round_half_even_def Let_def denormal_bits_def)

lemma round_6_5: "round_to_double (13 / 2) = 13 / 2"
  by (subst round_to_double_pos [where j = 1076])
    (simp_all add: round_half_even_def Let_def denormal_bits_def)

lemma round_13_01: "round_to_double 13.01 = 7323978894011269 / 2 ^ 49"
  by (subst round_to_double_pos [where j = 1077])
    (simp_all add: round_half_even_def Let_def denormal_bits_def)

lemma round_2_53_minus_3: "round_to_double (2 ^ 53 - 3) = 2 ^ 53 - 3"
  by (subst round_to_double_pos [where j = 1126])
    (simp_all add: round_half_even_def Let_def denormal_bits_def)

lemma round_2_53: "round_to_double (2 ^ 53) = 2 ^ 53"
  by (subst round_to_double_pos [where j = 1127])
    (simp_all add: round_half_even_def Let_def denormal_bits_def)

lemma round_2_53_plus_3: "round_to_double (2 ^ 53 + 3) = 2 ^ 53 + 4"
  by (subst round_to_double_pos [where j = 1127])
    (simp_all add: round_half_even_def Let_def denormal_bits_def)

lemma round_2_53_plus_4: "round_to_double (2 ^ 53 + 4) = 2 ^ 53 + 4"
  by (subst round_to_double_pos [where j = 1127])
    (simp_all add: round_half_even_def Let_def denormal_bits_def)

lemma round_0_1: "round_to_double (3602879701896397 / 2 ^ 55) = 3602879701896397 / 2 ^ 55"
  by (subst round_to_double_pos [where j = 1070])
    (simp_all add: round_half_even_def Let_def denormal_bits_def)

lemma round_3_1: "round_to_double (6980579422424269 / 2 ^ 51) = 6980579422424269 / 2 ^ 51"
  by (subst round_to_double_pos [where j = 1075])
    (simp_all add: round_half_even_def Let_def denormal_bits_def)

lemma round_0_1_plus_3: "round_to_double (3602879701896397 / 2 ^ 55 + 3) = 6980579422424269 / 2 ^ 51"
  by (subst round_to_double_pos [where j = 1075])
    (simp_all add: round_half_even_def Let_def denormal_bits_def)

lemma round_max_plus_3: "round_to_double ((2 ^ 53 - 1) * 2 ^ 971 + 3) = (2 ^ 53 - 1) * 2 ^ 971"
  by (subst round_to_double_pos [where j = 2097])
    (simp_all add: round_half_even_def Let_def denormal_bits_def)

lemmas round_to_double_examples =
  round_10_minus_3 round_10 round_10_plus_3 round_6_5
  round_13_01 round_2_53_minus_3 round_2_53 round_2_53_plus_3
  round_2_53_plus_4 round_0_1 round_3_1 round_0_1_plus_3
  round_max_plus_3

lemma round_to_double_nonpos: "x \<le> 0 \<Longrightarrow> round_to_double x \<le> 0"
  using round_to_double_nonneg [of "- x"] by (simp add: round_to_double_minus)

text \<open>What the handler decides, and what follows for a new time that is a double.\<close>

lemma updateTimecode_eq:
  "updateTimecode t (Some p) =
     Some (if t > double_add (getCurrentTime p) ALLOWED_DRIFT \<or>
              t < double_sub (getCurrentTime p) ALLOWED_DRIFT
           then seekTo t ''seconds'' p else p)"
  by (simp add: updateTimecode_def)

lemma updateTimecode_no_seek:
  assumes "\<not> round_to_double (c + 3) < t" and "\<not> t < round_to_double (c - 3)"
  shows "updateTimecode t (Some \<lparr>currentTime = c, seeks = ss\<rparr>) =
           Some \<lparr>currentTime = c, seeks = ss\<rparr>"
  using assms
  by (simp add: updateTimecode_eq double_add_def double_sub_def getCurrentTime_def
      ALLOWED_DRIFT_def)

lemma updateTimecode_seek_above:
  assumes "round_to_double (c + 3) < t"
  shows "updateTimecode t (Some \<lparr>currentTime = c, seeks = ss\<rparr>) =
           Some \<lparr>currentTime = c, seeks = ss @ [(t, ''seconds'')]\<rparr>"
  using assms
  by (simp add: updateTimecode_eq double_add_def double_sub_def getCurrentTime_def
      ALLOWED_DRIFT_def seekTo_def)

lemma updateTimecode_seek_below:
  assumes "t < round_to_double (c - 3)"
  shows "updateTimecode t (Some \<lparr>currentTime = c, seeks = ss\<rparr>) =
           Some \<lparr>currentTime = c, seeks = ss @ [(t, ''seconds'')]\<rparr>"
  using assms
  by (simp add: updateTimecode_eq double_add_def double_sub_def getCurrentTime_def
      ALLOWED_DRIFT_def seekTo_def)

lemma seekTo_neq: "seekTo t u p \<noteq> p"
proof
  assume "seekTo t u p = p"
  then have "seeks (seekTo t u p) = seeks p" by simp
  then show False by (simp add: seekTo_def)
qed

lemma seek_only_beyond_drift:
  assumes "is_double t"
    and "t > double_add c ALLOWED_DRIFT \<or> t < double_sub c ALLOWED_DRIFT"
  shows "\<bar>t - c\<bar> > ALLOWED_DRIFT"
proof -
  from assms(2) show ?thesis
  proof
    assume up: "t > double_add c ALLOWED_DRIFT"
    have "\<not> t \<le> c + ALLOWED_DRIFT"
    proof
      assume "t \<le> c + ALLOWED_DRIFT"
      from double_below [OF assms(1) this] up show False by (simp add: double_add_def)
    qed
    then show ?thesis by linarith
  next
    assume down: "t < double_sub c ALLOWED_DRIFT"
    have "\<not> c - ALLOWED_DRIFT \<le> t"
    proof
      assume "c - ALLOWED_DRIFT \<le> t"
      from double_above [OF assms(1) this] down show False by (simp add: double_sub_def)
    qed
    then show ?thesis by linarith
  qed
qed

section \<open>Auxiliary facts: exceptions\<close>

lemma call_in_order_None:
  "(\<forall>l \<in> set ls. does l e = None) \<Longrightarrow> call_in_order does e ls = None"
  by (induction ls) auto

lemma deliver_set_topic:
  "deliver does (snd (set_topic c v)) =
     (if get_topic c = v then None
      else call_in_order does (topicChange v) (topicChange_listeners c))"
  by (simp add: set_topic_eq get_topic_def split: option.splits)

lemma deliver_set_occupants:
  "deliver does (snd (set_occupants c r s)) =
     (if isSameOccupantsList c r s then None
      else call_in_order does (occupantsChange r) (occupantsChange_listeners c))"
  by (simp add: set_occupants_eq split: option.splits)

text \<open>The controller that the factory works on has no listener yet.\<close>

lemma thrown_fromConversationAreaModel:
  "thrown does (FromConversationAreaModel m finder) c s =
     (case finder (occupantsByID m) (snd (new_ConversationAreaController (id_m m) (topic_m m) s)) of
        Inl err \<Rightarrow> Some err
      | Inr r \<Rightarrow> None)"
proof (cases "finder (occupantsByID m)
                (snd (new_ConversationAreaController (id_m m) (topic_m m) s))")
  case (Inl err)
  then have "fromConversationAreaModel m finder s = Inl err"
    by (simp only: fromConversationAreaModel_Inl)
  with Inl show ?thesis by simp
next
  case (Inr r)
  obtain found s1 where r: "r = (found, s1)" by (cases r)
  let ?c0 = "fst (new_ConversationAreaController (id_m m) (topic_m m) s)"
  have none: "occupantsChange_listeners ?c0 = []"
    by (simp add: new_ConversationAreaController_eq)
  have "fromConversationAreaModel m finder s =
          Inr (fst (set_occupants ?c0 found s1), s1, snd (set_occupants ?c0 found s1))"
    using Inr r by (intro fromConversationAreaModel_Inr) simp
  then have "thrown does (FromConversationAreaModel m finder) c s =
               deliver does (snd (set_occupants ?c0 found s1))"
    by simp
  also have "\<dots> = None"
    by (simp only: deliver_set_occupants none call_in_order.simps if_cancel)
  finally show ?thesis using Inr by simp
qed

section \<open>The occupants setter\<close>

text \<open>
  C1. Assigning to \<open>occupants\<close> an array whose elements are a permutation of the
  elements of the stored array (the same references with the same multiplicities, in
  any order; the stored array itself included) stores nothing and emits nothing: the
  controller is unchanged, and the getter still returns the address it returned before.
\<close>

theorem occupants_permutation_is_noop:
  assumes "mset (elems s newOccupants) = mset (elems s (get_occupants c))"
  shows "set_occupants c newOccupants s = (c, []) \<and>
         get_occupants (fst (set_occupants c newOccupants s)) = get_occupants c"
proof -
  have len: "length (elems s (priv_occupants c)) = length (elems s newOccupants)"
    using assms mset_eq_length [of "elems s newOccupants" "elems s (get_occupants c)"]
    by (simp add: get_occupants_def)
  have mem: "set (elems s newOccupants) \<subseteq> set (elems s (priv_occupants c))"
    using assms mset_eq_setD [of "elems s newOccupants" "elems s (get_occupants c)"]
    by (simp add: get_occupants_def)
  have "isSameOccupantsList c newOccupants s"
    using len mem by (simp add: isSameOccupantsList_iff)
  then show ?thesis
    by (simp add: set_occupants_eq)
qed

text \<open>
  The reordering of the test suite: the stored array is \<open>[p1, p2, p3]\<close>, the assigned
  one is another array, \<open>[p3, p1, p2]\<close>.
\<close>

theorem occupants_permutation_is_noop_witness:
  "mset (elems example_store 4) = mset (elems example_store (get_occupants (example_area 3))) \<and>
   set_occupants (example_area 3) 4 example_store = (example_area 3, []) \<and>
   get_occupants (fst (set_occupants (example_area 3) 4 example_store)) = 3"
proof -
  have h: "mset (elems example_store 4) =
           mset (elems example_store (get_occupants (example_area 3)))"
    by (simp add: example_store_def example_area_def get_occupants_def)
  from occupants_permutation_is_noop [OF h] h show ?thesis
    by (simp add: example_area_def get_occupants_def)
qed

text \<open>
  C2. The claim: an assigned list whose membership or cardinality differs from the
  stored one is stored and announced once, "current \<open>[a, b]\<close> versus new \<open>[a, a]\<close>"
  included. At that very input the code does neither. The stored array is \<open>[p1, p2]\<close>
  (address 0), the assigned one is \<open>[p1, p1]\<close> (address 1): the lengths agree and \<open>p1\<close>
  is in the set of current occupants, so \<open>_isSameOccupantsList\<close> answers true, the
  controller keeps address 0 and no \<open>occupantsChange\<close> is emitted, although the set of
  occupants has changed from \<open>{p1, p2}\<close> to \<open>{p1}\<close>.
\<close>

theorem occupants_duplicate_not_stored:
  "elems example_store (get_occupants (example_area 0)) = [1, 2] \<and>
   elems example_store 1 = [1, 1] \<and>
   set_occupants (example_area 0) 1 example_store = (example_area 0, []) \<and>
   get_occupants (fst (set_occupants (example_area 0) 1 example_store)) = 0"
  by (simp add: set_occupants_eq isSameOccupantsList_iff get_occupants_def
      example_area_def example_store_def)

section \<open>The accessors of ViewingAreaController\<close>

text \<open>
  C3. The claim: \<open>updateFrom(model)\<close> sets \<open>isPlaying\<close>, \<open>elapsedTimeSec\<close> and
  \<open>video\<close> from the model and leaves \<open>id\<close>. In the code the first of the three
  assignments, to \<open>isPlaying\<close>, throws \<open>Error('Unimplemented: Task 2
  ViewingAreaController')\<close>, and so does \<open>updateFrom\<close>: here on the controller and
  the second snapshot of the spec's scenario. Reading \<open>id\<close> throws the same error.
\<close>

theorem updateFrom_throws:
  "updateFrom example_viewing_area
     \<lparr>id_v = ''a1'', isPlaying = False, elapsedTimeSec = 13, video = Some ''v2''\<rparr> =
     Inl (Error ''Unimplemented: Task 2 ViewingAreaController'') \<and>
   set_isPlaying example_viewing_area False =
     Inl (Error ''Unimplemented: Task 2 ViewingAreaController'') \<and>
   get_id_ViewingArea example_viewing_area =
     Inl (Error ''Unimplemented: Task 2 ViewingAreaController'')"
  by (simp add: updateFrom_Unimplemented ViewingAreaController_accessors_Unimplemented
      Unimplemented_def)

text \<open>
  C4. The claim: setting \<open>video\<close>, \<open>elapsedTimeSec\<close> or \<open>isPlaying\<close> to its current
  value changes nothing, emits nothing and does not throw. In the code each of the
  three setters throws whatever it is given: here on the controller of the test
  suite, with the values it was constructed from.
\<close>

theorem ViewingArea_setters_throw:
  "set_video example_viewing_area (Some ''v1'') =
     Inl (Error ''Unimplemented: Task 2 ViewingAreaController'') \<and>
   set_elapsedTimeSec example_viewing_area 12 =
     Inl (Error ''Unimplemented: Task 2 ViewingAreaController'') \<and>
   set_isPlaying example_viewing_area True =
     Inl (Error ''Unimplemented: Task 2 ViewingAreaController'')"
  by (simp add: ViewingAreaController_accessors_Unimplemented Unimplemented_def)

section \<open>The topic setter\<close>

text \<open>
  C5. Setting \<open>topic\<close> to the value it has changes nothing and emits nothing. Setting
  it to any other value \<open>v2\<close> (a string or absent) stores \<open>v2\<close>, so that \<open>topic\<close>
  reads \<open>v2\<close> afterwards, and makes one emission: \<open>topicChange\<close> carrying \<open>v2\<close>, to
  the listeners subscribed to \<open>topicChange\<close> at the time, in the order in which they
  subscribed.
\<close>

theorem set_topic_change_detection:
  "(get_topic c = v \<longrightarrow> set_topic c v = (c, [])) \<and>
   (get_topic c \<noteq> v2 \<longrightarrow>
      set_topic c v2 =
        (c\<lparr>priv_topic := v2\<rparr>,
         [\<lparr>event = topicChange v2, invoked = topicChange_listeners c\<rparr>]) \<and>
      get_topic (fst (set_topic c v2)) = v2)"
  by (simp add: set_topic_eq get_topic_def)

text \<open>
  An area with the topic \<open>fruits\<close>, to which listener 7 and then listener 4 have
  subscribed: the same topic, the topic removed, and a topic set on the area without
  one.
\<close>

theorem set_topic_change_detection_witness:
  "set_topic (addListener_topicChange 4 (example_area 0)) (Some ''fruits'') =
     (addListener_topicChange 4 (example_area 0), []) \<and>
   set_topic (addListener_topicChange 4 (example_area 0)) None =
     ((addListener_topicChange 4 (example_area 0))\<lparr>priv_topic := None\<rparr>,
      [\<lparr>event = topicChange None, invoked = [7, 4]\<rparr>]) \<and>
   get_topic (fst (set_topic (addListener_topicChange 4 (example_area 0)) None)) = None \<and>
   set_topic ((example_area 0)\<lparr>priv_topic := None\<rparr>) (Some ''x'') =
     ((example_area 0)\<lparr>priv_topic := Some ''x''\<rparr>,
      [\<lparr>event = topicChange (Some ''x''), invoked = [7]\<rparr>])"
  using set_topic_change_detection
          [of "addListener_topicChange 4 (example_area 0)" "Some ''fruits''" None]
    set_topic_change_detection [of "(example_area 0)\<lparr>priv_topic := None\<rparr>" None "Some ''x''"]
  by (simp add: example_area_def get_topic_def addListener_topicChange_def)

section \<open>Projection to the wire shape\<close>

text \<open>
  C6. Let \<open>playerFinder\<close> return, for the IDs of a model \<open>m\<close>, an array of players
  that bear these IDs in this order. Then \<open>toConversationAreaModel()\<close> on the
  controller that \<open>fromConversationAreaModel(m, playerFinder)\<close> builds gives \<open>m\<close>
  back: the id, the topic (present or absent) and the IDs in their order. After an
  assignment to \<open>topic\<close> or to \<open>occupants\<close>, the projection shows the id, the topic
  and the IDs of the occupants array that the controller then holds, in the order of
  that array.

  The second hypothesis says that the array made by the constructor is still empty
  when \<open>playerFinder\<close> has returned: the callback has no reference to it.
\<close>

theorem toConversationAreaModel_round_trip:
  assumes "finder (occupantsByID m) (snd (new_ConversationAreaController (id_m m) (topic_m m) s))
             = Inr (found, s1)"
    and "elems s1 (fresh s) = []"
    and "map (id_of s1) (elems s1 found) = occupantsByID m"
  shows "(\<exists>ret out. fromConversationAreaModel m finder s = Inr (ret, s1, out) \<and>
            toConversationAreaModel ret s1 = m) \<and>
         toConversationAreaModel (fst (set_topic c v)) s' =
           \<lparr>id_m = get_id c, topic_m = v,
            occupantsByID = map (id_of s') (elems s' (get_occupants c))\<rparr> \<and>
         toConversationAreaModel (fst (set_occupants c r s')) s' =
           \<lparr>id_m = get_id c, topic_m = get_topic c,
            occupantsByID =
              map (id_of s') (elems s' (get_occupants (fst (set_occupants c r s'))))\<rparr>"
proof -
  let ?c0 = "fst (new_ConversationAreaController (id_m m) (topic_m m) s)"
  have run: "fromConversationAreaModel m finder s =
      Inr (fst (set_occupants ?c0 found s1), s1, snd (set_occupants ?c0 found s1))"
    using assms(1) by (rule fromConversationAreaModel_Inr [of finder m s found s1])
  have rt: "toConversationAreaModel (fst (set_occupants ?c0 found s1)) s1 = m"
  proof (cases "elems s1 found = []")
    case True
    with assms(2,3) show ?thesis
      by (simp add: new_ConversationAreaController_eq set_occupants_on_new_empty
          toConversationAreaModel_def)
  next
    case False
    with assms(2,3) show ?thesis
      by (simp add: new_ConversationAreaController_eq set_occupants_on_new_nonempty
          toConversationAreaModel_def)
  qed
  have topic: "toConversationAreaModel (fst (set_topic c v)) s' =
           \<lparr>id_m = get_id c, topic_m = v,
            occupantsByID = map (id_of s') (elems s' (get_occupants c))\<rparr>"
    by (simp add: toConversationAreaModel_def set_topic_eq get_id_def get_occupants_def)
  have occ: "toConversationAreaModel (fst (set_occupants c r s')) s' =
           \<lparr>id_m = get_id c, topic_m = get_topic c,
            occupantsByID =
              map (id_of s') (elems s' (get_occupants (fst (set_occupants c r s'))))\<rparr>"
    by (simp add: toConversationAreaModel_def set_occupants_eq get_id_def get_topic_def
        get_occupants_def)
  from run rt topic occ show ?thesis by simp
qed

text \<open>
  A model without a topic and with the IDs of \<open>[p1, p2]\<close>; and the projection after
  \<open>[p3, p1, p2]\<close> has replaced \<open>[p1, p2]\<close>.
\<close>

theorem toConversationAreaModel_round_trip_witness:
  "finder_returning 0 [''p1'', ''p2'']
     (snd (new_ConversationAreaController ''area'' None example_store)) =
     Inr (0, snd (new_ConversationAreaController ''area'' None example_store)) \<and>
   elems (snd (new_ConversationAreaController ''area'' None example_store))
     (fresh example_store) = [] \<and>
   map (id_of (snd (new_ConversationAreaController ''area'' None example_store)))
     (elems (snd (new_ConversationAreaController ''area'' None example_store)) 0) =
     [''p1'', ''p2''] \<and>
   (\<exists>ret out.
      fromConversationAreaModel
        \<lparr>id_m = ''area'', topic_m = None, occupantsByID = [''p1'', ''p2'']\<rparr>
        (finder_returning 0) example_store =
        Inr (ret, snd (new_ConversationAreaController ''area'' None example_store), out) \<and>
      toConversationAreaModel ret (snd (new_ConversationAreaController ''area'' None example_store)) =
        \<lparr>id_m = ''area'', topic_m = None, occupantsByID = [''p1'', ''p2'']\<rparr>) \<and>
   toConversationAreaModel (fst (set_occupants (example_area 0) 4 example_store)) example_store =
     \<lparr>id_m = ''area'', topic_m = Some ''fruits'', occupantsByID = [''p3'', ''p1'', ''p2'']\<rparr>"
proof -
  let ?s0 = "snd (new_ConversationAreaController ''area'' None example_store)"
  let ?m = "\<lparr>id_m = ''area'', topic_m = None, occupantsByID = [''p1'', ''p2'']\<rparr>"
  have f0: "finder_returning 0 (occupantsByID ?m)
      (snd (new_ConversationAreaController (id_m ?m) (topic_m ?m) example_store)) = Inr (0, ?s0)"
    by (simp add: finder_returning_def)
  have own: "elems ?s0 (fresh example_store) = []"
    by (simp add: new_ConversationAreaController_eq)
  have ids: "map (id_of ?s0) (elems ?s0 0) = occupantsByID ?m"
    by (simp add: new_ConversationAreaController_eq example_store_def)
  have after: "get_occupants (fst (set_occupants (example_area 0) 4 example_store)) = 4"
    by (simp add: set_occupants_eq isSameOccupantsList_iff get_occupants_def
        example_area_def example_store_def)
  from toConversationAreaModel_round_trip
         [of "finder_returning 0" ?m example_store 0 ?s0
             "example_area 0" "Some ''x''" example_store 4]
    f0 own ids after
  show ?thesis
    by (simp add: example_area_def example_store_def get_id_def get_topic_def)
qed

section \<open>isEmpty\<close>

text \<open>
  C7. \<open>isEmpty()\<close> is true exactly when the topic is absent or the occupants array
  has length zero. It is a function of the controller and the store that returns a
  truth value only: it changes neither and emits nothing.
\<close>

theorem isEmpty_truth_table:
  "isEmpty c s = (get_topic c = None \<or> elems s (get_occupants c) = [])"
  by (simp add: isEmpty_def get_topic_def get_occupants_def)

text \<open>
  The four combinations: topic and occupants, topic and no occupant, occupants and no
  topic, neither.
\<close>

theorem isEmpty_truth_table_witness:
  "isEmpty (example_area 0) example_store = False \<and>
   isEmpty (example_area 2) example_store = True \<and>
   isEmpty ((example_area 0)\<lparr>priv_topic := None\<rparr>) example_store = True \<and>
   isEmpty ((example_area 2)\<lparr>priv_topic := None\<rparr>) example_store = True"
  using isEmpty_truth_table [of "example_area 0" example_store]
    isEmpty_truth_table [of "example_area 2" example_store]
    isEmpty_truth_table [of "(example_area 0)\<lparr>priv_topic := None\<rparr>" example_store]
    isEmpty_truth_table [of "(example_area 2)\<lparr>priv_topic := None\<rparr>" example_store]
  by (simp add: example_area_def example_store_def get_topic_def get_occupants_def)

section \<open>The drift tolerance of ViewingAreaVideo\<close>

text \<open>
  C8. The claim: the player is asked to seek to the new time \<open>t\<close> if and only if
  \<open>t\<close> differs from the time \<open>c\<close> that the player reports by more than 3 seconds.
  The handler compares \<open>t\<close> with the double sums \<open>c + 3\<close> and \<open>c - 3\<close>, which are
  rounded. At \<open>c = 2 ^ 53\<close> the sum \<open>c + 3\<close> is the tie between \<open>2 ^ 53 + 2\<close> and
  \<open>2 ^ 53 + 4\<close> and rounds to \<open>2 ^ 53 + 4\<close>: the new time \<open>t = 2 ^ 53 + 4\<close> differs
  from \<open>c\<close> by 4 and the player is left alone. The same happens at the doubles
  nearest to \<open>0.1\<close> and \<open>3.1\<close>, which differ by a little more than 3: the sum
  \<open>c + 3\<close> rounds up to \<open>t\<close> itself.
\<close>

theorem updateTimecode_rounded_sum_counterexample:
  "is_double (2 ^ 53) \<and> is_double (2 ^ 53 + 4) \<and>
   \<bar>(2 ^ 53 + 4) - 2 ^ 53\<bar> > ALLOWED_DRIFT \<and>
   updateTimecode (2 ^ 53 + 4) (Some \<lparr>currentTime = 2 ^ 53, seeks = []\<rparr>) =
     Some \<lparr>currentTime = 2 ^ 53, seeks = []\<rparr> \<and>
   is_double (3602879701896397 / 2 ^ 55) \<and> is_double (6980579422424269 / 2 ^ 51) \<and>
   \<bar>6980579422424269 / 2 ^ 51 - 3602879701896397 / 2 ^ 55\<bar> > ALLOWED_DRIFT \<and>
   updateTimecode (6980579422424269 / 2 ^ 51)
       (Some \<lparr>currentTime = 3602879701896397 / 2 ^ 55, seeks = []\<rparr>) =
     Some \<lparr>currentTime = 3602879701896397 / 2 ^ 55, seeks = []\<rparr>"
proof -
  have d1: "is_double (2 ^ 53)" and d2: "is_double (2 ^ 53 + 4)"
    and d3: "is_double (3602879701896397 / 2 ^ 55)"
    and d4: "is_double (6980579422424269 / 2 ^ 51)"
    by (rule is_doubleI, rule round_to_double_examples, simp add: double_max_def)+
  have far1: "\<bar>(2 ^ 53 + 4) - 2 ^ 53\<bar> > ALLOWED_DRIFT"
    by (simp add: ALLOWED_DRIFT_def)
  have far2: "\<bar>6980579422424269 / 2 ^ 51 - 3602879701896397 / 2 ^ 55\<bar> > ALLOWED_DRIFT"
    by (simp add: ALLOWED_DRIFT_def)
  have up1: "\<not> round_to_double (2 ^ 53 + 3) < 2 ^ 53 + 4"
    by (simp only: round_to_double_examples less_irrefl not_False_eq_True)
  have "\<not> (2 ^ 53 + 4 :: real) < 2 ^ 53 - 3" by simp
  then have down1: "\<not> 2 ^ 53 + 4 < round_to_double (2 ^ 53 - 3)"
    by (simp only: round_to_double_examples simp_thms)
  have stay1: "updateTimecode (2 ^ 53 + 4) (Some \<lparr>currentTime = 2 ^ 53, seeks = []\<rparr>) =
      Some \<lparr>currentTime = 2 ^ 53, seeks = []\<rparr>"
    using up1 down1 by (rule updateTimecode_no_seek)
  have up2: "\<not> round_to_double (3602879701896397 / 2 ^ 55 + 3) < 6980579422424269 / 2 ^ 51"
    by (simp only: round_to_double_examples less_irrefl not_False_eq_True)
  have "round_to_double (3602879701896397 / 2 ^ 55 - 3) \<le> 0"
    by (rule round_to_double_nonpos) simp
  moreover have "(0::real) < 6980579422424269 / 2 ^ 51" by simp
  ultimately have down2:
    "\<not> 6980579422424269 / 2 ^ 51 < round_to_double (3602879701896397 / 2 ^ 55 - 3)"
    by linarith
  have stay2: "updateTimecode (6980579422424269 / 2 ^ 51)
       (Some \<lparr>currentTime = 3602879701896397 / 2 ^ 55, seeks = []\<rparr>) =
     Some \<lparr>currentTime = 3602879701896397 / 2 ^ 55, seeks = []\<rparr>"
    using up2 down2 by (rule updateTimecode_no_seek)
  from d1 d2 far1 stay1 d3 d4 far2 stay2 show ?thesis by blast
qed

text \<open>
  C8, amended. With a player present, the handler asks the player to seek to \<open>t\<close>
  exactly when \<open>t\<close> is above the double sum \<open>c + 3\<close> or below the double difference
  \<open>c - 3\<close>, and otherwise asks nothing of it. For a new time that is a double, the
  handler seeks only if \<open>t\<close> and \<open>c\<close> differ by more than 3 seconds; and where the
  sum and the difference are exact, it seeks if and only if they do. With \<open>c = 10\<close>:
  \<open>t = 13\<close> leaves the player alone, \<open>t = 13.01\<close> (the double nearest to it) seeks to
  that time.
\<close>

theorem updateTimecode_drift_tolerance:
  "updateTimecode t (Some p) =
     Some (if t > double_add (getCurrentTime p) ALLOWED_DRIFT \<or>
              t < double_sub (getCurrentTime p) ALLOWED_DRIFT
           then seekTo t ''seconds'' p else p) \<and>
   (is_double t \<and> updateTimecode t (Some p) \<noteq> Some p \<longrightarrow>
      \<bar>t - getCurrentTime p\<bar> > ALLOWED_DRIFT) \<and>
   (double_add (getCurrentTime p) ALLOWED_DRIFT = getCurrentTime p + ALLOWED_DRIFT \<and>
    double_sub (getCurrentTime p) ALLOWED_DRIFT = getCurrentTime p - ALLOWED_DRIFT \<longrightarrow>
      updateTimecode t (Some p) =
        Some (if \<bar>t - getCurrentTime p\<bar> > ALLOWED_DRIFT then seekTo t ''seconds'' p else p)) \<and>
   ALLOWED_DRIFT = 3 \<and>
   updateTimecode 13 (Some \<lparr>currentTime = 10, seeks = []\<rparr>) =
     Some \<lparr>currentTime = 10, seeks = []\<rparr> \<and>
   updateTimecode (round_to_double 13.01) (Some \<lparr>currentTime = 10, seeks = []\<rparr>) =
     Some \<lparr>currentTime = 10, seeks = [(round_to_double 13.01, ''seconds'')]\<rparr>"
proof -
  let ?c = "getCurrentTime p"
  have decides: "updateTimecode t (Some p) =
     Some (if t > double_add ?c ALLOWED_DRIFT \<or> t < double_sub ?c ALLOWED_DRIFT
           then seekTo t ''seconds'' p else p)"
    by (rule updateTimecode_eq)
  have only: "is_double t \<and> updateTimecode t (Some p) \<noteq> Some p \<longrightarrow>
      \<bar>t - ?c\<bar> > ALLOWED_DRIFT"
  proof
    assume a: "is_double t \<and> updateTimecode t (Some p) \<noteq> Some p"
    then have "t > double_add ?c ALLOWED_DRIFT \<or> t < double_sub ?c ALLOWED_DRIFT"
      by (auto simp add: updateTimecode_eq split: if_splits)
    with a show "\<bar>t - ?c\<bar> > ALLOWED_DRIFT"
      by (intro seek_only_beyond_drift) simp_all
  qed
  have exact: "double_add ?c ALLOWED_DRIFT = ?c + ALLOWED_DRIFT \<and>
      double_sub ?c ALLOWED_DRIFT = ?c - ALLOWED_DRIFT \<longrightarrow>
      updateTimecode t (Some p) =
        Some (if \<bar>t - ?c\<bar> > ALLOWED_DRIFT then seekTo t ''seconds'' p else p)"
    by (auto simp add: updateTimecode_eq)
  have drift: "ALLOWED_DRIFT = 3" by (rule ALLOWED_DRIFT_def)
  have "\<not> round_to_double (10 + 3) < 13"
    by (simp only: round_to_double_examples less_irrefl not_False_eq_True)
  moreover have "\<not> (13::real) < 7" by simp
  then have "\<not> 13 < round_to_double (10 - 3)"
    by (simp only: round_to_double_examples simp_thms)
  ultimately have at13: "updateTimecode 13 (Some \<lparr>currentTime = 10, seeks = []\<rparr>) =
      Some \<lparr>currentTime = 10, seeks = []\<rparr>"
    by (rule updateTimecode_no_seek)
  have "(13::real) < 7323978894011269 / 2 ^ 49" by simp
  then have "round_to_double (10 + 3) < round_to_double 13.01"
    by (simp only: round_to_double_examples)
  then have "updateTimecode (round_to_double 13.01) (Some \<lparr>currentTime = 10, seeks = []\<rparr>) =
      Some \<lparr>currentTime = 10, seeks = [] @ [(round_to_double 13.01, ''seconds'')]\<rparr>"
    by (rule updateTimecode_seek_above)
  then have at1301:
    "updateTimecode (round_to_double 13.01) (Some \<lparr>currentTime = 10, seeks = []\<rparr>) =
      Some \<lparr>currentTime = 10, seeks = [(round_to_double 13.01, ''seconds'')]\<rparr>"
    by (simp only: append_Nil)
  from decides only exact drift at13 at1301 show ?thesis by blast
qed

text \<open>
  The other side of the tolerance, with \<open>c = 10\<close>, where both sums are exact: \<open>7\<close> is
  within the tolerance, the double \<open>6.5\<close> is not.
\<close>

theorem updateTimecode_drift_tolerance_witness:
  "is_double (13 / 2) \<and>
   double_add 10 ALLOWED_DRIFT = 10 + ALLOWED_DRIFT \<and>
   double_sub 10 ALLOWED_DRIFT = 10 - ALLOWED_DRIFT \<and>
   updateTimecode 7 (Some \<lparr>currentTime = 10, seeks = []\<rparr>) =
     Some \<lparr>currentTime = 10, seeks = []\<rparr> \<and>
   updateTimecode (13 / 2) (Some \<lparr>currentTime = 10, seeks = []\<rparr>) =
     Some \<lparr>currentTime = 10, seeks = [(13 / 2, ''seconds'')]\<rparr> \<and>
   \<bar>13 / 2 - 10\<bar> > ALLOWED_DRIFT"
proof -
  let ?p = "\<lparr>currentTime = 10, seeks = []\<rparr>"
  have d: "is_double (13 / 2)"
    by (rule is_doubleI, rule round_to_double_examples, simp add: double_max_def)
  have c: "getCurrentTime ?p = 10" by (simp add: getCurrentTime_def)
  have "round_to_double (10 + 3) = 10 + 3" "round_to_double (10 - 3) = 10 - 3"
    by (simp_all only: round_to_double_examples)
  then have up: "double_add 10 ALLOWED_DRIFT = 10 + ALLOWED_DRIFT"
    and down: "double_sub 10 ALLOWED_DRIFT = 10 - ALLOWED_DRIFT"
    by (simp_all only: double_add_def double_sub_def ALLOWED_DRIFT_def)
  have upg: "double_add (getCurrentTime ?p) ALLOWED_DRIFT = getCurrentTime ?p + ALLOWED_DRIFT"
    and downg: "double_sub (getCurrentTime ?p) ALLOWED_DRIFT = getCurrentTime ?p - ALLOWED_DRIFT"
    by (simp_all only: c up down)
  have far: "\<bar>13 / 2 - 10\<bar> > ALLOWED_DRIFT"
    by (simp add: ALLOWED_DRIFT_def)
  from updateTimecode_drift_tolerance [of 7 ?p] upg downg
  have "updateTimecode 7 (Some ?p) =
          Some (if \<bar>7 - getCurrentTime ?p\<bar> > ALLOWED_DRIFT
                then seekTo 7 ''seconds'' ?p else ?p)"
    by blast
  then have w7: "updateTimecode 7 (Some ?p) = Some ?p"
    by (simp add: getCurrentTime_def ALLOWED_DRIFT_def)
  from updateTimecode_drift_tolerance [of "13 / 2" ?p] upg downg
  have "updateTimecode (13 / 2) (Some ?p) =
          Some (if \<bar>13 / 2 - getCurrentTime ?p\<bar> > ALLOWED_DRIFT
                then seekTo (13 / 2) ''seconds'' ?p else ?p)"
    by blast
  then have w65: "updateTimecode (13 / 2) (Some ?p) =
      Some \<lparr>currentTime = 10, seeks = [(13 / 2, ''seconds'')]\<rparr>"
    by (simp add: getCurrentTime_def ALLOWED_DRIFT_def seekTo_def)
  from d up down w7 w65 far show ?thesis by blast
qed

section \<open>Exceptions\<close>

text \<open>
  C9. The claim: every operation of \<open>ConversationAreaController\<close> completes without
  throwing, for every input, given a \<open>playerFinder\<close> that returns. A setter that
  changes the value emits, and \<open>emit\<close> calls the subscribed listeners: when one of
  them throws, the assignment throws. Here listener 7 is subscribed to \<open>topicChange\<close>
  and throws, and the topic \<open>fruits\<close> is removed; and listeners 8 and 9, subscribed
  to \<open>occupantsChange\<close> in this order, both throw, and the occupants \<open>[p1, p2]\<close> are
  replaced by \<open>[p1, p2, p3]\<close>: the error is that of listener 8.
\<close>

theorem setter_throws_with_listener_counterexample:
  "thrown (throwing_listener 7) (Set_topic None) (example_area 0) example_store =
     Some (Error ''listener failed'') \<and>
   thrown each_throws (Set_occupants 3) (example_area 0) example_store =
     Some (Error ''listener 8 failed'')"
  by (simp add: deliver_set_topic deliver_set_occupants isSameOccupantsList_iff get_topic_def
      example_area_def example_store_def throwing_listener_def each_throws_def)

text \<open>
  C9, amended. No operation of \<open>ConversationAreaController\<close> throws of its own. The
  constructor, the getters, \<open>isEmpty\<close> and \<open>toConversationAreaModel\<close> never throw. A
  setter throws exactly when it emits (the value is a new one) and a listener
  subscribed to the event throws: the error is that of the first such listener in
  the order of subscription. The factory \<open>fromConversationAreaModel\<close> throws exactly
  when \<open>playerFinder\<close> throws, with its error; the emission inside the factory reaches
  no listener. So with listeners that return and a \<open>playerFinder\<close> that returns, every
  operation completes. Nothing is asked of the IDs, which may repeat.
\<close>

theorem operations_throw_only_through_callbacks:
  "thrown does op c s =
     (case op of
        Set_topic v \<Rightarrow>
          if get_topic c = v then None
          else call_in_order does (topicChange v) (topicChange_listeners c)
      | Set_occupants r \<Rightarrow>
          if isSameOccupantsList c r s then None
          else call_in_order does (occupantsChange r) (occupantsChange_listeners c)
      | FromConversationAreaModel m finder \<Rightarrow>
          (case finder (occupantsByID m)
                  (snd (new_ConversationAreaController (id_m m) (topic_m m) s)) of
             Inl err \<Rightarrow> Some err
           | Inr r \<Rightarrow> None)
      | _ \<Rightarrow> None) \<and>
   ((\<forall>l \<in> set (topicChange_listeners c) \<union> set (occupantsChange_listeners c).
       \<forall>e. does l e = None) \<and>
    finder_returns op s \<longrightarrow> thrown does op c s = None)"
proof (cases op)
  case (Set_occupants r)
  then show ?thesis
    by (simp add: deliver_set_occupants finder_returns_def call_in_order_None)
next
  case (Set_topic v)
  then show ?thesis
    by (simp add: deliver_set_topic finder_returns_def call_in_order_None)
next
  case (FromConversationAreaModel m finder)
  then show ?thesis
    by (simp add: thrown_fromConversationAreaModel finder_returns_def
        del: thrown.simps split: sum.splits)
qed (simp_all add: finder_returns_def)

text \<open>
  Listener 5 throws but is not subscribed. A model whose IDs repeat is resolved to
  the array \<open>[p1, p1]\<close>; the topic is removed; the occupants are replaced; the topic
  is set to the one it has while the subscribed listener 7 throws.
\<close>

theorem operations_throw_only_through_callbacks_witness:
  "finder_returns
     (FromConversationAreaModel
        \<lparr>id_m = ''area'', topic_m = None, occupantsByID = [''p1'', ''p1'']\<rparr>
        (finder_returning 1)) example_store \<and>
   thrown (throwing_listener 5)
     (FromConversationAreaModel
        \<lparr>id_m = ''area'', topic_m = None, occupantsByID = [''p1'', ''p1'']\<rparr>
        (finder_returning 1)) (example_area 0) example_store = None \<and>
   thrown (throwing_listener 5) (Set_topic None) (example_area 0) example_store = None \<and>
   thrown (throwing_listener 5) (Set_occupants 3) (example_area 0) example_store = None \<and>
   thrown (throwing_listener 7) (Set_topic (Some ''fruits'')) (example_area 0) example_store = None"
proof -
  let ?op = "FromConversationAreaModel
        \<lparr>id_m = ''area'', topic_m = None, occupantsByID = [''p1'', ''p1'']\<rparr>
        (finder_returning 1)"
  have quiet: "\<forall>l \<in> set (topicChange_listeners (example_area 0)) \<union>
                     set (occupantsChange_listeners (example_area 0)).
                 \<forall>e. throwing_listener 5 l e = None"
    by (simp add: example_area_def throwing_listener_def)
  have f: "finder_returns ?op example_store"
    by (simp add: finder_returns_def finder_returning_def)
  have g: "finder_returns (Set_topic None) example_store"
    and h: "finder_returns (Set_occupants 3) example_store"
    by (simp_all add: finder_returns_def)
  have w1: "thrown (throwing_listener 5) ?op (example_area 0) example_store = None"
    using operations_throw_only_through_callbacks
            [of "throwing_listener 5" ?op "example_area 0" example_store] quiet f
    by blast
  have w2: "thrown (throwing_listener 5) (Set_topic None) (example_area 0) example_store = None"
    using operations_throw_only_through_callbacks
            [of "throwing_listener 5" "Set_topic None" "example_area 0" example_store] quiet g
    by blast
  have w3: "thrown (throwing_listener 5) (Set_occupants 3) (example_area 0) example_store = None"
    using operations_throw_only_through_callbacks
            [of "throwing_listener 5" "Set_occupants 3" "example_area 0" example_store] quiet h
    by blast
  have w4: "thrown (throwing_listener 7) (Set_topic (Some ''fruits'')) (example_area 0)
              example_store = None"
    using operations_throw_only_through_callbacks
            [of "throwing_listener 7" "Set_topic (Some ''fruits'')" "example_area 0" example_store]
    by (simp add: get_topic_def example_area_def del: thrown.simps)
  from f w1 w2 w3 w4 show ?thesis by blast
qed

section \<open>The occupants of a controller made by the factory\<close>

text \<open>
  C10. Let \<open>playerFinder\<close> return the array \<open>found\<close>, the constructor's own array
  being still empty then (the callback has no reference to it). If \<open>found\<close> is not
  empty, the controller that the factory returns holds \<open>found\<close> itself, and the
  assignment has made one emission of \<open>occupantsChange\<close>, carrying \<open>found\<close>, which
  reached no listener: none can have subscribed to a controller that has not been
  returned yet. If \<open>found\<close> is empty, the controller holds the array that its
  constructor made (address \<open>fresh s\<close>), not \<open>found\<close>, and nothing was emitted.
\<close>

theorem fromConversationAreaModel_occupants:
  assumes "finder (occupantsByID m) (snd (new_ConversationAreaController (id_m m) (topic_m m) s))
             = Inr (found, s1)"
    and "elems s1 (fresh s) = []"
  shows "(elems s1 found \<noteq> [] \<longrightarrow>
            fromConversationAreaModel m finder s =
              Inr (\<lparr>priv_id = id_m m, priv_topic = topic_m m, priv_occupants = found,
                     topicChange_listeners = [], occupantsChange_listeners = []\<rparr>,
                   s1, [\<lparr>event = occupantsChange found, invoked = []\<rparr>])) \<and>
         (elems s1 found = [] \<longrightarrow>
            fromConversationAreaModel m finder s =
              Inr (\<lparr>priv_id = id_m m, priv_topic = topic_m m, priv_occupants = fresh s,
                     topicChange_listeners = [], occupantsChange_listeners = []\<rparr>,
                   s1, []))"
  using fromConversationAreaModel_Inr [of finder m s found s1] assms
  by (simp add: new_ConversationAreaController_eq set_occupants_on_new_nonempty
      set_occupants_on_new_empty)

text \<open>
  \<open>playerFinder\<close> answering with \<open>[p1, p2]\<close> (address 0), then with the empty array
  at address 2; the constructor's array is at address 5.
\<close>

theorem fromConversationAreaModel_occupants_witness:
  "finder_returning 0 [''p1'', ''p2'']
     (snd (new_ConversationAreaController ''area'' (Some ''fruits'') example_store)) =
     Inr (0, snd (new_ConversationAreaController ''area'' (Some ''fruits'') example_store)) \<and>
   elems (snd (new_ConversationAreaController ''area'' (Some ''fruits'') example_store))
     (fresh example_store) = [] \<and>
   fromConversationAreaModel
     \<lparr>id_m = ''area'', topic_m = Some ''fruits'', occupantsByID = [''p1'', ''p2'']\<rparr>
     (finder_returning 0) example_store =
     Inr (\<lparr>priv_id = ''area'', priv_topic = Some ''fruits'', priv_occupants = 0,
            topicChange_listeners = [], occupantsChange_listeners = []\<rparr>,
          snd (new_ConversationAreaController ''area'' (Some ''fruits'') example_store),
          [\<lparr>event = occupantsChange 0, invoked = []\<rparr>]) \<and>
   fromConversationAreaModel
     \<lparr>id_m = ''area'', topic_m = Some ''fruits'', occupantsByID = []\<rparr>
     (finder_returning 2) example_store =
     Inr (\<lparr>priv_id = ''area'', priv_topic = Some ''fruits'', priv_occupants = 5,
            topicChange_listeners = [], occupantsChange_listeners = []\<rparr>,
          snd (new_ConversationAreaController ''area'' (Some ''fruits'') example_store),
          [])"
proof -
  let ?s0 = "snd (new_ConversationAreaController ''area'' (Some ''fruits'') example_store)"
  let ?m = "\<lparr>id_m = ''area'', topic_m = Some ''fruits'', occupantsByID = [''p1'', ''p2'']\<rparr>"
  let ?m' = "\<lparr>id_m = ''area'', topic_m = Some ''fruits'', occupantsByID = []\<rparr>"
  have f0: "finder_returning 0 (occupantsByID ?m)
      (snd (new_ConversationAreaController (id_m ?m) (topic_m ?m) example_store)) = Inr (0, ?s0)"
    by (simp add: finder_returning_def)
  have f2: "finder_returning 2 (occupantsByID ?m')
      (snd (new_ConversationAreaController (id_m ?m') (topic_m ?m') example_store)) = Inr (2, ?s0)"
    by (simp add: finder_returning_def)
  have own: "elems ?s0 (fresh example_store) = []"
    by (simp add: new_ConversationAreaController_eq)
  have e0: "elems ?s0 0 \<noteq> []" and e2: "elems ?s0 2 = []" and fr: "fresh example_store = 5"
    by (simp_all add: new_ConversationAreaController_eq example_store_def)
  from fromConversationAreaModel_occupants [of "finder_returning 0" ?m example_store 0 ?s0]
    fromConversationAreaModel_occupants [of "finder_returning 2" ?m' example_store 2 ?s0]
    f0 f2 own e0 e2 fr
  show ?thesis by simp
qed

end
